theory Spec2Isabelle
  imports Main
begin

section \<open>BlackboardSync: the sync scheduler (sync.py) and folder nodes (content/folder.py)\<close>

text \<open>
  Conventions of the embedding.
  \<^item> A \<open>datetime\<close> is a point on the UTC time line counted in whole seconds from the
    epoch, an \<open>int\<close>; the values a \<open>datetime\<close> can hold lie between \<open>datetime_min\<close> and
    \<open>datetime_max\<close>. \<open>timedelta(seconds=n)\<close> exists for \<open>n\<close> within \<open>timedelta_in_range\<close>
    and adds \<open>n\<close>; outside these ranges Python raises \<open>OverflowError\<close>.
  \<^item> A \<open>pathlib.Path\<close> is the list of its components; \<open>p / name\<close> appends a component
    and \<open>p / ''\<close> is \<open>p\<close>.
  \<^item> A Python exception is a value of \<open>exn\<close>, named after the \<open>except\<close> class it
    matches; \<open>ConnectionError\<close> is \<open>requests.exceptions.ConnectionError\<close>.
  \<^item> An instance attribute that \<open>__init__\<close> does not assign (\<open>sess\<close>, \<open>_cookies\<close>,
    \<open>last_sync\<close>) is \<open>Unassigned\<close> until its first assignment; reading it then raises
    \<open>AttributeError\<close>.
  \<^item> A method that mutates \<open>self\<close> takes the state and returns it updated, together
    with \<open>None\<close> when it returns normally or \<open>Some e\<close> when exception \<open>e\<close> leaves it.
    The state returned with \<open>Some e\<close> holds the assignments made before the raise.
  \<^item> Attributes written \<open>_name\<close> in the source are the fields \<open>u_name\<close>.
\<close>

type_synonym time = int
type_synonym path = "string list"

datatype exn =
  ValueError | ConnectionError | TypeError | AttributeError | OverflowError | OtherError string

datatype 'a attr = Unassigned | Assigned 'a

text \<open>
  Modelled from the spec: \<open>SyncConfig\<close> (module \<open>config\<close>, not among the sources), the
  configuration store of section 6, which "persists and restores" the download location
  and the optional last sync time and is written through on every mutation. Only the
  two fields that sync.py reads and writes are kept; both accept any value.
\<close>

record SyncConfig =
  cfg_download_location :: path
  cfg_last_sync_time :: "time option"

text \<open>
  The instance state of \<open>BlackboardSync\<close>. The last four fields are not attributes: they
  record the effects the methods have outside the object, in the order they happen.
  \<^item> \<open>threads\<close>: how many Sync threads \<open>start_sync\<close> has started;
  \<^item> \<open>session_requests\<close>: the cookie jars handed to \<open>BlackboardSession(...)\<close>;
  \<^item> \<open>jobs\<close>: the \<open>BlackboardDownload(sess, location, cutoff)\<close> objects constructed;
  \<^item> \<open>exception_logs\<close>: the log directory and exception of every \<open>_log_exception\<close>.
\<close>

record ('c, 's) BlackboardSync =
  u_sync_interval :: int
  u_last_sync :: "time option"
  u_next_sync :: "time option"
  u_is_logged_in :: bool
  u_force_sync :: bool
  u_is_syncing :: bool
  u_is_active :: bool
  u_config :: SyncConfig
  u_cookies :: "'c attr"
  sess :: "'s option attr"
  last_sync :: "time attr"
  threads :: nat
  session_requests :: "'c list"
  jobs :: "('s option \<times> path \<times> time option) list"
  exception_logs :: "(path \<times> exn) list"

subsection \<open>Properties and setters (sync.py, lines 188-286)\<close>

definition last_sync_time :: "('c, 's) BlackboardSync \<Rightarrow> time option" where
  "last_sync_time s = cfg_last_sync_time (u_config s)"

definition download_location :: "('c, 's) BlackboardSync \<Rightarrow> path" where
  "download_location s = cfg_download_location (u_config s)"

definition next_sync :: "('c, 's) BlackboardSync \<Rightarrow> time option" where
  "next_sync s = u_next_sync s"

definition log_directory :: string where
  "log_directory = ''log''"

definition log_dir :: "('c, 's) BlackboardSync \<Rightarrow> path" where
  "log_dir s = download_location s @ [log_directory]"

text \<open>
  The range of \<open>datetime\<close>: from 0001-01-01 00:00:00 to 9999-12-31 23:59:59 (UTC), in
  seconds from the epoch. The range of \<open>timedelta(seconds=n)\<close>: the normalised number of
  days, \<open>n div 86400\<close>, is at most 999999999 in absolute value.
\<close>

definition datetime_min :: time where
  "datetime_min = - 62135596800"

definition datetime_max :: time where
  "datetime_max = 253402300799"

definition datetime_in_range :: "time \<Rightarrow> bool" where
  "datetime_in_range t = (datetime_min \<le> t \<and> t \<le> datetime_max)"

definition timedelta_in_range :: "int \<Rightarrow> bool" where
  "timedelta_in_range n = (- 999999999 \<le> n div 86400 \<and> n div 86400 \<le> 999999999)"

text \<open>
  \<open>_update_next_sync\<close>: \<open>self._config.last_sync_time + timedelta(seconds=self._sync_interval)\<close>.
  The operands are evaluated first, so an interval outside the range of \<open>timedelta\<close>
  raises \<open>OverflowError\<close> whatever the last sync time is. With the last sync time
  \<open>None\<close> the addition raises \<open>TypeError\<close>; with a sum outside the range of
  \<open>datetime\<close> it raises \<open>OverflowError\<close>. When it raises, \<open>_next_sync\<close> is not assigned.
\<close>

definition update_next_sync ::
  "('c, 's) BlackboardSync \<Rightarrow> exn option \<times> ('c, 's) BlackboardSync" where
  "update_next_sync s =
     (if \<not> timedelta_in_range (u_sync_interval s) then (Some OverflowError, s)
      else
        (case cfg_last_sync_time (u_config s) of
           None \<Rightarrow> (Some TypeError, s)
         | Some t \<Rightarrow>
             if datetime_in_range (t + u_sync_interval s)
             then (None, s\<lparr>u_next_sync := Some (t + u_sync_interval s)\<rparr>)
             else (Some OverflowError, s)))"

definition last_sync_time_setter ::
  "time option \<Rightarrow> ('c, 's) BlackboardSync \<Rightarrow> exn option \<times> ('c, 's) BlackboardSync" where
  "last_sync_time_setter last_time s =
     update_next_sync (s\<lparr>u_config := (u_config s)\<lparr>cfg_last_sync_time := last_time\<rparr>\<rparr>)"

definition sync_interval_setter ::
  "int \<Rightarrow> ('c, 's) BlackboardSync \<Rightarrow> ('c, 's) BlackboardSync" where
  "sync_interval_setter p s = s\<lparr>u_sync_interval := p\<rparr>"

text \<open>
  \<open>outdated\<close>, read at the instant \<open>now\<close> (\<open>datetime.now(timezone.utc)\<close>). Comparing a
  datetime with a \<open>_next_sync\<close> that is still \<open>None\<close> raises \<open>TypeError\<close>.
\<close>

definition outdated :: "time \<Rightarrow> ('c, 's) BlackboardSync \<Rightarrow> exn + bool" where
  "outdated now s =
     (case cfg_last_sync_time (u_config s) of
        None \<Rightarrow> Inr True
      | Some _ \<Rightarrow>
          (case next_sync s of
             None \<Rightarrow> Inl TypeError
           | Some n \<Rightarrow> Inr (now \<ge> n)))"

definition change_download_location ::
  "path \<Rightarrow> bool \<Rightarrow> ('c, 's) BlackboardSync \<Rightarrow> exn option \<times> ('c, 's) BlackboardSync" where
  "change_download_location new_dir redownload s =
     (if new_dir \<noteq> cfg_download_location (u_config s) then
        (let s1 = s\<lparr>u_config := (u_config s)\<lparr>cfg_download_location := new_dir\<rparr>\<rparr>
         in if redownload then last_sync_time_setter None s1 else (None, s1))
      else (None, s))"

subsection \<open>Construction (sync.py, lines 53-93)\<close>

text \<open>
  \<open>__init__\<close>, given the configuration that \<open>SyncConfig()\<close> loaded. A datetime is always
  truthy, so the test \<open>if self._config.last_sync_time\<close> is the test for \<open>None\<close>. The
  result is \<open>Inr\<close> the new object, or \<open>Inl\<close> the exception that \<open>_update_next_sync\<close>
  raised, in which case no object is constructed.
\<close>

definition init :: "SyncConfig \<Rightarrow> exn + ('c, 's) BlackboardSync" where
  "init cfg =
     (let s = \<lparr>u_sync_interval = 60 * 30, u_last_sync = None, u_next_sync = None,
                u_is_logged_in = False, u_force_sync = False, u_is_syncing = False,
                u_is_active = False, u_config = cfg, u_cookies = Unassigned,
                sess = Unassigned, last_sync = Unassigned, threads = 0,
                session_requests = [], jobs = [], exception_logs = []\<rparr>
      in if cfg_last_sync_time cfg \<noteq> None then
           (case update_next_sync s of
              (None, s') \<Rightarrow> Inr s'
            | (Some e, s') \<Rightarrow> Inl e)
         else Inr s)"

subsection \<open>Session control (sync.py, lines 95-120 and 163-186)\<close>

definition start_sync :: "('c, 's) BlackboardSync \<Rightarrow> ('c, 's) BlackboardSync" where
  "start_sync s = s\<lparr>u_is_active := True, threads := threads s + 1\<rparr>"

definition stop_sync :: "('c, 's) BlackboardSync \<Rightarrow> ('c, 's) BlackboardSync" where
  "stop_sync s = s\<lparr>u_is_active := False\<rparr>"

definition log_out :: "('c, 's) BlackboardSync \<Rightarrow> ('c, 's) BlackboardSync" where
  "log_out s = (stop_sync s)\<lparr>sess := Assigned None, u_is_logged_in := False\<rparr>"

definition force_sync :: "('c, 's) BlackboardSync \<Rightarrow> ('c, 's) BlackboardSync" where
  "force_sync s = s\<lparr>u_force_sync := True\<rparr>"

text \<open>
  \<open>_log_exception\<close>: the log directory is created and a dated file in it receives the
  exception. The entry is kept as the directory and the exception.
\<close>

definition log_exception :: "exn \<Rightarrow> ('c, 's) BlackboardSync \<Rightarrow> ('c, 's) BlackboardSync" where
  "log_exception e s = s\<lparr>exception_logs := exception_logs s @ [(log_dir s, e)]\<rparr>"

text \<open>
  \<open>auth\<close>. The constructor \<open>BlackboardSession\<close> belongs to another module and is the
  parameter \<open>new_session\<close>: \<open>Inr\<close> the session, or \<open>Inl\<close> the exception it raises
  (\<open>ValueError\<close> for a credential that is not valid). Only \<open>ValueError\<close> is caught.
\<close>

definition auth ::
  "('c \<Rightarrow> exn + 's) \<Rightarrow> 'c \<Rightarrow> ('c, 's) BlackboardSync \<Rightarrow> (exn + bool) \<times> ('c, 's) BlackboardSync" where
  "auth new_session cookie_jar s =
     (let s1 = s\<lparr>u_cookies := Assigned cookie_jar,
                  session_requests := session_requests s @ [cookie_jar]\<rparr>
      in case new_session cookie_jar of
           Inl e \<Rightarrow>
             if e = ValueError then (Inr (u_is_logged_in s1), s1) else (Inl e, s1)
         | Inr u_sess \<Rightarrow>
             (let s2 = start_sync (s1\<lparr>sess := Assigned (Some u_sess), u_is_logged_in := True\<rparr>)
              in (Inr (u_is_logged_in s2), s2)))"

subsection \<open>The Sync thread (sync.py, lines 122-161)\<close>

text \<open>
  What one pass of the \<open>while\<close> loop meets outside the object: the instant at which
  \<open>outdated\<close> reads the clock, and what \<open>new_download.download()\<close> does if it is called:
  \<open>Inr t\<close> when it returns the instant \<open>t\<close> at which the job started, \<open>Inl e\<close> when it
  raises \<open>e\<close>. \<open>BlackboardDownload\<close> belongs to another module; its constructor is taken
  to store its arguments.
\<close>

record tick_input =
  now :: time
  download :: "exn + time"

text \<open>The local variables of \<open>_sync_task\<close>.\<close>

record locals =
  reload_session :: bool
  failed_attempts :: nat

definition max_retries :: nat where
  "max_retries = 3"

text \<open>
  The statements after the \<open>try\<close> (lines 151-157), reached when the \<open>try\<close> statement ended
  without an exception escaping it.
\<close>

definition after_try ::
  "locals \<Rightarrow> ('c, 's) BlackboardSync \<Rightarrow> exn option \<times> locals \<times> ('c, 's) BlackboardSync" where
  "after_try l s =
     (let s1 = (if failed_attempts l \<ge> max_retries then log_out s else s)
      in (None, l, s1\<lparr>u_force_sync := False, u_is_syncing := False\<rparr>))"

text \<open>
  One pass of the loop body (lines 131-158). \<open>self.outdated or self._force_sync\<close>
  evaluates \<open>outdated\<close> first. The result of \<open>download()\<close> is assigned to the attribute
  \<open>last_sync\<close>, as line 139 has it. The handlers are tried in the order of the source;
  an exception that neither handler matches leaves the body, and with it the thread.
\<close>

definition tick ::
  "tick_input \<Rightarrow> locals \<Rightarrow> ('c, 's) BlackboardSync \<Rightarrow>
     exn option \<times> locals \<times> ('c, 's) BlackboardSync" where
  "tick inp l s =
     (case outdated (now inp) s of
        Inl e \<Rightarrow> (Some e, l, s)
      | Inr od \<Rightarrow>
          if od \<or> u_force_sync s then
            (let s1 = s\<lparr>u_is_syncing := True\<rparr>
             in case sess s1 of
                  Unassigned \<Rightarrow> (Some AttributeError, l, s1)
                | Assigned se \<Rightarrow>
                    (let s2 = s1\<lparr>jobs := jobs s1 @ [(se, download_location s1, last_sync_time s1)]\<rparr>
                     in case download inp of
                          Inr t \<Rightarrow>
                            after_try (l\<lparr>failed_attempts := 0\<rparr>) (s2\<lparr>last_sync := Assigned t\<rparr>)
                        | Inl e \<Rightarrow>
                            if e = ValueError then
                              after_try (l\<lparr>reload_session := True\<rparr>) (log_out s2)
                            else if e = ConnectionError then
                              after_try (l\<lparr>failed_attempts := failed_attempts l + 1\<rparr>)
                                (log_exception e s2)
                            else (Some e, l, s2)))
          else (None, l, s))"

text \<open>
  The \<open>while self._is_active\<close> loop, run on the inputs of its successive passes.
  \<open>Some (None, l, s)\<close>: the loop ended because \<open>_is_active\<close> was false at a test;
  \<open>Some (Some e, l, s)\<close>: exception \<open>e\<close> left the loop; \<open>None\<close>: the inputs are used up
  and the loop is still running.
\<close>

fun sync_loop ::
  "tick_input list \<Rightarrow> locals \<Rightarrow> ('c, 's) BlackboardSync \<Rightarrow>
     (exn option \<times> locals \<times> ('c, 's) BlackboardSync) option" where
  "sync_loop [] l s = (if u_is_active s then None else Some (None, l, s))"
| "sync_loop (inp # rest) l s =
     (if u_is_active s then
        (case tick inp l s of
           (Some e, l', s') \<Rightarrow> Some (Some e, l', s')
         | (None, l', s') \<Rightarrow> sync_loop rest l' s')
      else Some (None, l, s))"

text \<open>Lines 160-161, after the loop: \<open>if reload_session: self.auth(self._cookies)\<close>.\<close>

definition reload ::
  "('c \<Rightarrow> exn + 's) \<Rightarrow> locals \<Rightarrow> ('c, 's) BlackboardSync \<Rightarrow>
     exn option \<times> ('c, 's) BlackboardSync" where
  "reload new_session l s =
     (if reload_session l then
        (case u_cookies s of
           Unassigned \<Rightarrow> (Some AttributeError, s)
         | Assigned c \<Rightarrow>
             (case auth new_session c s of
                (Inl e, s') \<Rightarrow> (Some e, s')
              | (Inr _, s') \<Rightarrow> (None, s')))
      else (None, s))"

text \<open>
  The loop followed by lines 160-161, from the values \<open>l\<close> of the local variables, and
  \<open>_sync_task\<close> itself, which starts with \<open>reload_session = False\<close> and
  \<open>failed_attempts = 0\<close>. \<open>None\<close>: the thread is still in its loop.
\<close>

definition sync_task_from ::
  "('c \<Rightarrow> exn + 's) \<Rightarrow> tick_input list \<Rightarrow> locals \<Rightarrow> ('c, 's) BlackboardSync \<Rightarrow>
     (exn option \<times> ('c, 's) BlackboardSync) option" where
  "sync_task_from new_session inps l s =
     (case sync_loop inps l s of
        None \<Rightarrow> None
      | Some (Some e, l', s') \<Rightarrow> Some (Some e, s')
      | Some (None, l', s') \<Rightarrow> Some (reload new_session l' s'))"

definition sync_task ::
  "('c \<Rightarrow> exn + 's) \<Rightarrow> tick_input list \<Rightarrow> ('c, 's) BlackboardSync \<Rightarrow>
     (exn option \<times> ('c, 's) BlackboardSync) option" where
  "sync_task new_session inps s =
     sync_task_from new_session inps \<lparr>reload_session = False, failed_attempts = 0\<rparr> s"

section \<open>Folder (content/folder.py)\<close>

text \<open>
  Modelled from the spec: \<open>BBCourseContent\<close> (package \<open>blackboard\<close>, not among the
  sources), a child descriptor as \<open>fetch_content_children\<close> returns it. By section 6 it
  "carries at least: id, name, kind/handler-presence, modification time, course id"; kept
  are its id, its content handler, which may be \<open>None\<close>, and its modification time,
  which may be unknown. \<open>Folder\<close> reads the first two.
\<close>

record 'h BBCourseContent =
  content_id :: string
  contentHandler :: "'h option"
  modified :: "time option"

text \<open>
  \<open>Folder.__init__\<close>: the children that the session returned for \<open>api_path\<close> are
  \<open>fetched\<close>; \<open>course_id\<close> is \<open>api_path.get('course_id')\<close>. \<open>cont.Content\<close> belongs to
  another module: \<open>Content child cid crs\<close> stands for
  \<open>cont.Content(child, {'content_id': cid, 'course_id': crs}, job)\<close>. The result is
  the list \<open>self.children\<close>.
\<close>

definition Folder_init ::
  "('h BBCourseContent \<Rightarrow> string \<Rightarrow> string option \<Rightarrow> 'n) \<Rightarrow> string option \<Rightarrow>
     'h BBCourseContent list \<Rightarrow> 'n list" where
  "Folder_init Content course_id fetched =
     map (\<lambda>child. Content child (content_id child) course_id)
       (filter (\<lambda>child. contentHandler child \<noteq> None) fetched)"

text \<open>
  The calls that \<open>Folder.write\<close> makes, in order: \<open>Mkdir p\<close> is
  \<open>p.mkdir(exist_ok=True, parents=True)\<close>, \<open>ChildWrite c p\<close> is \<open>c.write(p, executor)\<close>.
\<close>

datatype 'n fs_call = Mkdir path | ChildWrite 'n path

definition Folder_write :: "'n list \<Rightarrow> path \<Rightarrow> 'n fs_call list" where
  "Folder_write children path =
     (if children \<noteq> [] then [Mkdir path] else []) @
     map (\<lambda>child. ChildWrite child path) children"

section \<open>Notions used in the statements\<close>

text \<open>
  The loop condition \<open>self.outdated or self._force_sync\<close> evaluated to true at the
  instant \<open>tnow\<close>, so that the pass constructs a download job.
\<close>

definition job_due :: "time \<Rightarrow> ('c, 's) BlackboardSync \<Rightarrow> bool" where
  "job_due tnow s =
     (case outdated tnow s of Inl e \<Rightarrow> False | Inr od \<Rightarrow> od \<or> u_force_sync s)"

text \<open>
  The staleness predicate in the words of the specification, which takes the next sync
  time to be the last sync time plus the sync interval: "true if \<open>last_sync_time\<close> is
  unset, or current time \<open>\<ge> next_sync_time\<close>", "\<open>next_sync_time\<close>: derived as
  \<open>last_sync_time + interval\<close>". It is compared with \<open>outdated\<close> below.
\<close>

definition outdated_as_specified :: "time \<Rightarrow> ('c, 's) BlackboardSync \<Rightarrow> bool" where
  "outdated_as_specified tnow s =
     (case last_sync_time s of
        None \<Rightarrow> True
      | Some t \<Rightarrow> tnow \<ge> t + u_sync_interval s)"

text \<open>
  Eligibility of a child in the words of the specification: a child without a handler
  is excluded (section 3), and besides "only leaf content whose modification time is
  \<open>\<ge> cutoff_time\<close> (or whose modification time is unknown, treated as always include)" is
  kept, where an unset cutoff keeps everything (section 4.2). It is compared with the
  children that \<open>Folder.__init__\<close> keeps.
\<close>

definition eligible_as_specified :: "time option \<Rightarrow> 'h BBCourseContent \<Rightarrow> bool" where
  "eligible_as_specified cutoff child =
     (contentHandler child \<noteq> None \<and>
      (case cutoff of
         None \<Rightarrow> True
       | Some c \<Rightarrow> (case modified child of None \<Rightarrow> True | Some m \<Rightarrow> m \<ge> c)))"

text \<open>
  Concrete inputs for the examples: a configuration with download location
  \<open>home/bb\<close>, the state after \<open>__init__\<close> and one successful \<open>auth\<close> with cookie jar
  \<open>1\<close> (giving session \<open>5\<close>), and the local variables at the start of \<open>_sync_task\<close>.
\<close>

abbreviation example_config :: "time option \<Rightarrow> SyncConfig" where
  "example_config lst \<equiv> \<lparr>cfg_download_location = [''home'', ''bb''], cfg_last_sync_time = lst\<rparr>"

abbreviation logged_in_example :: "time option \<Rightarrow> (nat, nat) BlackboardSync" where
  "logged_in_example lst \<equiv> snd (auth (\<lambda>c. Inr 5) 1 (projr (init (example_config lst))))"

abbreviation loop_start :: locals where
  "loop_start \<equiv> \<lparr>reload_session = False, failed_attempts = 0\<rparr>"

section \<open>Auxiliary facts\<close>

lemmas prop_defs = last_sync_time_def download_location_def next_sync_def

lemmas eval_defs = init_def auth_def start_sync_def update_next_sync_def outdated_def
  job_due_def tick_def after_try_def max_retries_def log_out_def stop_sync_def
  log_exception_def log_dir_def log_directory_def force_sync_def reload_def
  sync_task_from_def sync_task_def prop_defs Let_def
  datetime_in_range_def timedelta_in_range_def datetime_min_def datetime_max_def

lemma log_out_simps [simp]:
  "u_is_active (log_out s) = False"
  "u_is_logged_in (log_out s) = False"
  "sess (log_out s) = Assigned None"
  "u_config (log_out s) = u_config s"
  "u_next_sync (log_out s) = u_next_sync s"
  "u_cookies (log_out s) = u_cookies s"
  "threads (log_out s) = threads s"
  "session_requests (log_out s) = session_requests s"
  "jobs (log_out s) = jobs s"
  "exception_logs (log_out s) = exception_logs s"
  "last_sync (log_out s) = last_sync s"
  "u_sync_interval (log_out s) = u_sync_interval s"
  by (simp_all add: log_out_def stop_sync_def)

lemma log_out_idem: "log_out (log_out s) = log_out s"
  by (simp add: log_out_def stop_sync_def)

text \<open>
  What one pass of the loop does, by what the download job does. In each case the loop
  condition held, so the job was constructed with the current session, download
  location and last sync time.
\<close>

lemma tick_success:
  assumes "job_due (now inp) s" and "sess s = Assigned se" and "download inp = Inr t"
  shows "tick inp l s =
           (None, l\<lparr>failed_attempts := 0\<rparr>,
            s\<lparr>jobs := jobs s @ [(se, download_location s, last_sync_time s)],
              last_sync := Assigned t, u_force_sync := False, u_is_syncing := False\<rparr>)"
  using assms
  by (auto simp add: tick_def job_due_def Let_def after_try_def max_retries_def prop_defs
        split: sum.splits)

lemma tick_session_expired:
  assumes "job_due (now inp) s" and "sess s = Assigned se" and "download inp = Inl ValueError"
  shows "tick inp l s =
           (None, l\<lparr>reload_session := True\<rparr>,
            (log_out s)\<lparr>jobs := jobs s @ [(se, download_location s, last_sync_time s)],
              u_force_sync := False, u_is_syncing := False\<rparr>)"
  using assms
  by (auto simp add: tick_def job_due_def Let_def after_try_def max_retries_def prop_defs
        log_out_def stop_sync_def split: sum.splits)

lemma tick_connection_error:
  assumes "job_due (now inp) s" and "sess s = Assigned se"
    and "download inp = Inl ConnectionError"
  shows "tick inp l s =
           (None, l\<lparr>failed_attempts := failed_attempts l + 1\<rparr>,
            (if failed_attempts l + 1 \<ge> max_retries then log_out else id)
              (s\<lparr>jobs := jobs s @ [(se, download_location s, last_sync_time s)],
                 exception_logs := exception_logs s @ [(log_dir s, ConnectionError)]\<rparr>)
              \<lparr>u_force_sync := False, u_is_syncing := False\<rparr>)"
  using assms
  by (auto simp add: tick_def job_due_def Let_def after_try_def prop_defs log_dir_def
        log_exception_def log_out_def stop_sync_def split: sum.splits)

lemma tick_unhandled:
  assumes "job_due (now inp) s" and "sess s = Assigned se" and "download inp = Inl e"
    and "e \<noteq> ValueError" and "e \<noteq> ConnectionError"
  shows "tick inp l s =
           (Some e, l,
            s\<lparr>u_is_syncing := True,
              jobs := jobs s @ [(se, download_location s, last_sync_time s)]\<rparr>)"
  using assms
  by (auto simp add: tick_def job_due_def Let_def prop_defs split: sum.splits)

lemma tick_not_due:
  assumes "outdated (now inp) s = Inr False" and "\<not> u_force_sync s"
  shows "tick inp l s = (None, l, s)"
  using assms by (simp add: tick_def)

text \<open>
  The only writers of the configured last sync time are \<open>__init__\<close> (through the
  loaded configuration) and the setter. An object that \<open>__init__\<close> constructs, and a state
  that the setter returns normally, have \<open>_next_sync\<close> assigned whenever a last sync time
  is stored; a pass of the loop and \<open>auth\<close> write neither. A setter that raises
  \<open>OverflowError\<close> has stored the last sync time and not the next one.
\<close>

lemma init_next_sync_defined:
  assumes "init cfg = Inr s"
  shows "last_sync_time s = None \<or> next_sync s \<noteq> None"
  using assms
  by (cases "cfg_last_sync_time cfg")
     (auto simp add: init_def update_next_sync_def prop_defs Let_def split: if_splits)

lemma setter_next_sync_defined:
  assumes "last_sync_time_setter v s = (None, s')"
  shows "last_sync_time s' = None \<or> next_sync s' \<noteq> None"
  using assms
  by (cases v)
     (auto simp add: last_sync_time_setter_def update_next_sync_def prop_defs
        split: if_splits)

lemma tick_next_sync_defined:
  assumes "last_sync_time s = None \<or> next_sync s \<noteq> None"
  shows "last_sync_time (snd (snd (tick inp l s))) = last_sync_time s
         \<and> next_sync (snd (snd (tick inp l s))) = next_sync s"
  by (simp add: tick_def after_try_def log_out_def stop_sync_def log_exception_def
        prop_defs Let_def split: sum.splits attr.splits)

lemma auth_next_sync_defined:
  "last_sync_time (snd (auth new_session c s)) = last_sync_time s
   \<and> next_sync (snd (auth new_session c s)) = next_sync s"
  by (simp add: auth_def start_sync_def prop_defs Let_def split: sum.splits)

lemma job_due_force_sync:
  assumes "last_sync_time s = None \<or> next_sync s \<noteq> None"
  shows "job_due tnow (force_sync s)"
  using assms
  by (auto simp add: job_due_def outdated_def force_sync_def prop_defs split: option.splits)

lemma force_sync_fields [simp]:
  "sess (force_sync s) = sess s"
  "jobs (force_sync s) = jobs s"
  "download_location (force_sync s) = download_location s"
  "last_sync_time (force_sync s) = last_sync_time s"
  "u_is_active (force_sync s) = u_is_active s"
  by (simp_all add: force_sync_def prop_defs)

section \<open>The claims\<close>

subsection \<open>C1: a successful download job\<close>

text \<open>
  Claim C1, as the source behaves. In a pass of the loop whose download job returns the
  instant \<open>t\<close> at which it started, the pass ends normally, the count of consecutive
  failures is 0 and \<open>t\<close> is stored in the attribute \<open>last_sync\<close>. The last sync
  time and the next sync time are what they were before the pass: line 139 assigns to
  \<open>self.last_sync\<close>, which is not the property \<open>last_sync_time\<close>, so its setter and
  \<open>_update_next_sync\<close> do not run.
\<close>

theorem tick_success_leaves_last_sync_time:
  assumes "job_due (now inp) s" and "sess s = Assigned se" and "download inp = Inr t"
  shows "\<exists>l' s'. tick inp l s = (None, l', s')
           \<and> failed_attempts l' = 0
           \<and> last_sync s' = Assigned t
           \<and> last_sync_time s' = last_sync_time s
           \<and> next_sync s' = next_sync s"
  using tick_success [OF assms, of l] by (simp add: prop_defs)

text \<open>
  Claim C1 at a concrete input: first pass after logging in with no last sync time, the
  job started at 1000 succeeds. The last sync time is still unset, no next sync time is
  stored, and a job is due again at the next pass, 10 seconds later.
\<close>

theorem tick_success_leaves_last_sync_time_witness:
  "job_due 1000 (logged_in_example None)
   \<and> last_sync_time (snd (snd (tick \<lparr>now = 1000, download = Inr 1000\<rparr> loop_start
         (logged_in_example None)))) = None
   \<and> next_sync (snd (snd (tick \<lparr>now = 1000, download = Inr 1000\<rparr> loop_start
         (logged_in_example None)))) = None
   \<and> job_due 1010 (snd (snd (tick \<lparr>now = 1000, download = Inr 1000\<rparr> loop_start
         (logged_in_example None))))"
  using tick_success_leaves_last_sync_time
    [of "\<lparr>now = 1000, download = Inr 1000\<rparr>" "logged_in_example None" "Some 5" 1000 loop_start]
  by (simp add: eval_defs)

subsection \<open>C2: the staleness predicate\<close>

text \<open>
  Claim C2 fails as stated. Construct with a stored last sync time 0 (the next sync time
  becomes 1800), then set \<open>sync_interval\<close> to 60: at instant 100 the last sync time plus
  the sync interval has passed, yet \<open>outdated\<close> is false, since the stored next sync time
  is not recomputed.
\<close>

theorem outdated_counterexample:
  "outdated 100 (sync_interval_setter 60
      (projr (init \<lparr>cfg_download_location = [], cfg_last_sync_time = Some 0\<rparr>)
         :: (nat, nat) BlackboardSync))
   \<noteq> Inr (outdated_as_specified 100 (sync_interval_setter 60
      (projr (init \<lparr>cfg_download_location = [], cfg_last_sync_time = Some 0\<rparr>)
         :: (nat, nat) BlackboardSync)))"
  by (simp add: outdated_as_specified_def sync_interval_setter_def eval_defs)

text \<open>
  Claim C2, amended. \<open>outdated\<close> returns true when the last sync time is unset; when it
  is set and a next sync time \<open>n\<close> is stored, \<open>outdated\<close> returns whether the current
  time is at least \<open>n\<close>; when it is set and no next sync time is stored, \<open>outdated\<close>
  raises \<open>TypeError\<close>.

  The stored next sync time comes from two places. Setting the last sync time to
  \<open>t0\<close> stores \<open>t0\<close> plus the sync interval of that moment, provided the interval is in
  the range of \<open>timedelta\<close> and the sum in the range of \<open>datetime\<close>; otherwise the setter
  raises \<open>OverflowError\<close> with the last sync time already stored and the next sync time
  as it was. Construction from a configuration with last sync time \<open>t0\<close> stores
  \<open>t0 + 1800\<close>, the initial interval, provided the sum is in the range of \<open>datetime\<close>,
  and otherwise raises \<open>OverflowError\<close>; construction with no last sync time stores
  none. A later change of the sync interval leaves the stored next sync time, and so
  \<open>outdated\<close>, as they are.

  With the last sync time set to \<open>t0\<close> under a sync interval of 1800 seconds, by the
  setter or by construction, \<open>outdated\<close> is false at \<open>t0 + 1700\<close> and true at
  \<open>t0 + 1801\<close>.
\<close>

theorem outdated_stored_next_sync:
  "(last_sync_time s = None \<longrightarrow> outdated tnow s = Inr True)
   \<and> (last_sync_time s \<noteq> None \<and> next_sync s = Some n \<longrightarrow>
        outdated tnow s = Inr (n \<le> tnow))
   \<and> (last_sync_time s \<noteq> None \<and> next_sync s = None \<longrightarrow>
        outdated tnow s = Inl TypeError)
   \<and> (timedelta_in_range (u_sync_interval s)
        \<and> datetime_in_range (t0 + u_sync_interval s) \<longrightarrow>
        (\<exists>s'. last_sync_time_setter (Some t0) s = (None, s')
           \<and> last_sync_time s' = Some t0
           \<and> next_sync s' = Some (t0 + u_sync_interval s)
           \<and> outdated tnow s' = Inr (t0 + u_sync_interval s \<le> tnow)
           \<and> last_sync_time (sync_interval_setter p s') = Some t0
           \<and> next_sync (sync_interval_setter p s') = next_sync s'
           \<and> outdated tnow (sync_interval_setter p s') = outdated tnow s'
           \<and> (u_sync_interval s = 1800 \<longrightarrow>
                outdated (t0 + 1700) s' = Inr False
                \<and> outdated (t0 + 1801) s' = Inr True)))
   \<and> (\<not> (timedelta_in_range (u_sync_interval s)
           \<and> datetime_in_range (t0 + u_sync_interval s)) \<longrightarrow>
        fst (last_sync_time_setter (Some t0) s) = Some OverflowError
        \<and> last_sync_time (snd (last_sync_time_setter (Some t0) s)) = Some t0
        \<and> next_sync (snd (last_sync_time_setter (Some t0) s)) = next_sync s)
   \<and> (cfg_last_sync_time cfg = Some t0 \<and> datetime_in_range (t0 + 1800) \<longrightarrow>
        (\<exists>s'. init cfg = Inr s'
           \<and> u_config s' = cfg
           \<and> last_sync_time s' = Some t0
           \<and> u_sync_interval s' = 1800
           \<and> next_sync s' = Some (t0 + 1800)
           \<and> outdated tnow s' = Inr (t0 + 1800 \<le> tnow)
           \<and> outdated (t0 + 1700) s' = Inr False
           \<and> outdated (t0 + 1801) s' = Inr True
           \<and> (s' :: ('c, 's) BlackboardSync) = s'))
   \<and> (cfg_last_sync_time cfg = Some t0 \<and> \<not> datetime_in_range (t0 + 1800) \<longrightarrow>
        (init cfg :: exn + ('c, 's) BlackboardSync) = Inl OverflowError)
   \<and> (cfg_last_sync_time cfg = None \<longrightarrow>
        (\<exists>s'. init cfg = Inr s'
           \<and> last_sync_time s' = None
           \<and> next_sync s' = None
           \<and> outdated tnow s' = Inr True
           \<and> (s' :: ('c, 's) BlackboardSync) = s'))"
proof -
  have range: "timedelta_in_range 1800"
    by (simp add: timedelta_in_range_def)
  have out: "(last_sync_time s = None \<longrightarrow> outdated tnow s = Inr True)
     \<and> (last_sync_time s \<noteq> None \<and> next_sync s = Some n \<longrightarrow>
          outdated tnow s = Inr (n \<le> tnow))
     \<and> (last_sync_time s \<noteq> None \<and> next_sync s = None \<longrightarrow>
          outdated tnow s = Inl TypeError)"
    by (auto simp add: outdated_def prop_defs split: option.splits)
  have set_ok: "timedelta_in_range (u_sync_interval s)
        \<and> datetime_in_range (t0 + u_sync_interval s) \<longrightarrow>
        (\<exists>s'. last_sync_time_setter (Some t0) s = (None, s')
           \<and> last_sync_time s' = Some t0
           \<and> next_sync s' = Some (t0 + u_sync_interval s)
           \<and> outdated tnow s' = Inr (t0 + u_sync_interval s \<le> tnow)
           \<and> last_sync_time (sync_interval_setter p s') = Some t0
           \<and> next_sync (sync_interval_setter p s') = next_sync s'
           \<and> outdated tnow (sync_interval_setter p s') = outdated tnow s'
           \<and> (u_sync_interval s = 1800 \<longrightarrow>
                outdated (t0 + 1700) s' = Inr False
                \<and> outdated (t0 + 1801) s' = Inr True))"
    by (simp add: outdated_def last_sync_time_setter_def update_next_sync_def
          sync_interval_setter_def prop_defs)
  have set_bad: "\<not> (timedelta_in_range (u_sync_interval s)
           \<and> datetime_in_range (t0 + u_sync_interval s)) \<longrightarrow>
        fst (last_sync_time_setter (Some t0) s) = Some OverflowError
        \<and> last_sync_time (snd (last_sync_time_setter (Some t0) s)) = Some t0
        \<and> next_sync (snd (last_sync_time_setter (Some t0) s)) = next_sync s"
    by (auto simp add: last_sync_time_setter_def update_next_sync_def prop_defs)
  have init_ok: "cfg_last_sync_time cfg = Some t0 \<and> datetime_in_range (t0 + 1800) \<longrightarrow>
        (\<exists>s'. init cfg = Inr s'
           \<and> u_config s' = cfg
           \<and> last_sync_time s' = Some t0
           \<and> u_sync_interval s' = 1800
           \<and> next_sync s' = Some (t0 + 1800)
           \<and> outdated tnow s' = Inr (t0 + 1800 \<le> tnow)
           \<and> outdated (t0 + 1700) s' = Inr False
           \<and> outdated (t0 + 1801) s' = Inr True
           \<and> (s' :: ('c, 's) BlackboardSync) = s')"
    using range
    by (simp add: init_def update_next_sync_def outdated_def prop_defs)
  have init_bad: "cfg_last_sync_time cfg = Some t0 \<and> \<not> datetime_in_range (t0 + 1800) \<longrightarrow>
        (init cfg :: exn + ('c, 's) BlackboardSync) = Inl OverflowError"
    using range by (simp add: init_def update_next_sync_def)
  have init_none: "cfg_last_sync_time cfg = None \<longrightarrow>
        (\<exists>s'. init cfg = Inr s'
           \<and> last_sync_time s' = None
           \<and> next_sync s' = None
           \<and> outdated tnow s' = Inr True
           \<and> (s' :: ('c, 's) BlackboardSync) = s')"
    by (simp add: init_def outdated_def prop_defs)
  from out set_ok set_bad init_ok init_bad init_none show ?thesis by blast
qed

text \<open>
  Claim C2 (amended) at concrete inputs: constructed with last sync time 1000, read at
  2700 and at 2801; the last sync time set to 5000 by the setter, read at 6700 and at
  6801; a state with no last sync time; and construction ten seconds before the end of
  the range of \<open>datetime\<close>.
\<close>

theorem outdated_stored_next_sync_witness:
  "outdated 2700 (logged_in_example (Some 1000)) = Inr False
   \<and> outdated 2801 (logged_in_example (Some 1000)) = Inr True
   \<and> outdated 6700 (snd (last_sync_time_setter (Some 5000) (logged_in_example None))) = Inr False
   \<and> outdated 6801 (snd (last_sync_time_setter (Some 5000) (logged_in_example None))) = Inr True
   \<and> outdated 5 (logged_in_example None) = Inr True
   \<and> (init (example_config (Some 253402300789)) :: exn + (nat, nat) BlackboardSync)
       = Inl OverflowError"
  using outdated_stored_next_sync
      [of "logged_in_example None" 5 0 5000 60 "example_config (Some 1000)", where 'c = nat and 's = nat]
    outdated_stored_next_sync
      [of "logged_in_example None" 5 0 5000 60 "example_config (Some 253402300789)", where 'c = nat and 's = nat]
  by (simp add: eval_defs last_sync_time_setter_def sync_interval_setter_def)

subsection \<open>C3: writing a folder\<close>

text \<open>
  Claim C3 fails as stated. Take the folder of the specification's example: its only
  child is a leaf with a content handler, modified at 900, and the cutoff is 1000. No
  child is eligible in the specification's sense, yet \<open>Folder.__init__\<close> keeps the child
  and \<open>Folder.write\<close> creates the directory \<open>Course/FolderA\<close> before writing the child.
\<close>

theorem Folder_write_old_leaf_counterexample:
  "filter (eligible_as_specified (Some 1000))
     [\<lparr>content_id = ''leaf1'', contentHandler = Some (1 :: nat), modified = Some 900\<rparr>] = []
   \<and> Folder_write
       (Folder_init (\<lambda>child cid crs. cid) (Some ''c1'')
          [\<lparr>content_id = ''leaf1'', contentHandler = Some (1 :: nat), modified = Some 900\<rparr>])
       [''Course'', ''FolderA'']
     = [Mkdir [''Course'', ''FolderA''], ChildWrite ''leaf1'' [''Course'', ''FolderA'']]"
  by (simp add: eligible_as_specified_def Folder_write_def Folder_init_def)

text \<open>
  Claim C3, amended. The children of a folder are the fetched descriptors whose content
  handler is not \<open>None\<close>, whatever their modification times. A folder with no children
  makes no call at all, so it creates no directory; this is the case exactly when every
  fetched descriptor lacks a handler. A folder with at least one child calls \<open>mkdir\<close> on
  its path first, and every child write comes after it; each child is written once, in
  order. Changing the modification times of the fetched descriptors changes neither
  whether the directory is created nor how many calls are made.
\<close>

theorem Folder_write_order:
  "(children = [] \<longrightarrow> Folder_write children path = [])
   \<and> (children \<noteq> [] \<longrightarrow>
        Folder_write children path ! 0 = Mkdir path
        \<and> (\<forall>i < length (Folder_write children path). \<forall>c p.
              Folder_write children path ! i = ChildWrite c p \<longrightarrow> 0 < i))
   \<and> [c. ChildWrite c p \<leftarrow> Folder_write children path] = children
   \<and> Folder_init Content course_id fetched =
        [Content child (content_id child) course_id.
           child \<leftarrow> fetched, contentHandler child \<noteq> None]
   \<and> (Folder_write (Folder_init Content course_id fetched) path = []
        \<longleftrightarrow> (\<forall>child \<in> set fetched. contentHandler child = None))
   \<and> ((\<exists>child \<in> set fetched. contentHandler child \<noteq> None) \<longrightarrow>
        Folder_write (Folder_init Content course_id fetched) path ! 0 = Mkdir path)
   \<and> length (Folder_write (Folder_init Content course_id
                (map (\<lambda>child. child\<lparr>modified := mtime child\<rparr>) fetched)) path)
       = length (Folder_write (Folder_init Content course_id fetched) path)"
proof -
  have a: "[c. ChildWrite c p \<leftarrow> map (\<lambda>child. ChildWrite child path) xs] = xs" for xs
    by (induction xs) simp_all
  have b: "Folder_init Content course_id fetched =
        [Content child (content_id child) course_id.
           child \<leftarrow> fetched, contentHandler child \<noteq> None]"
    unfolding Folder_init_def by (induction fetched) simp_all
  have c: "0 < i" if "(Mkdir path # map (\<lambda>child. ChildWrite child path) children) ! i
                       = ChildWrite c p" for i c p
    using that by (cases i) simp_all
  have d: "filter (\<lambda>child. contentHandler child \<noteq> None)
                (map (\<lambda>child. child\<lparr>modified := mtime child\<rparr>) fetched)
           = map (\<lambda>child. child\<lparr>modified := mtime child\<rparr>)
               (filter (\<lambda>child. contentHandler child \<noteq> None) fetched)"
    by (induction fetched) simp_all
  have e: "Folder_write (Folder_init Content course_id fetched) path = []
        \<longleftrightarrow> (\<forall>child \<in> set fetched. contentHandler child = None)"
    by (auto simp add: Folder_write_def Folder_init_def filter_empty_conv)
  have f: "(\<exists>child \<in> set fetched. contentHandler child \<noteq> None) \<longrightarrow>
        Folder_write (Folder_init Content course_id fetched) path ! 0 = Mkdir path"
    by (auto simp add: Folder_write_def Folder_init_def filter_empty_conv)
  have g: "length (Folder_write (Folder_init Content course_id
                (map (\<lambda>child. child\<lparr>modified := mtime child\<rparr>) fetched)) path)
       = length (Folder_write (Folder_init Content course_id fetched) path)"
    unfolding Folder_write_def Folder_init_def d by simp
  have h: "(children = [] \<longrightarrow> Folder_write children path = [])
   \<and> (children \<noteq> [] \<longrightarrow>
        Folder_write children path ! 0 = Mkdir path
        \<and> (\<forall>i < length (Folder_write children path). \<forall>c p.
              Folder_write children path ! i = ChildWrite c p \<longrightarrow> 0 < i))
   \<and> [c. ChildWrite c p \<leftarrow> Folder_write children path] = children"
    using a [of children] c by (auto simp add: Folder_write_def)
  from h b e f g show ?thesis by blast
qed

text \<open>
  Claim C3 (amended) at a concrete input: a folder with one child without handler and
  one with, and a folder whose only child has no handler.
\<close>

theorem Folder_write_order_witness:
  "Folder_write (Folder_init (\<lambda>child cid crs. cid) (Some ''c1'')
       [\<lparr>content_id = ''a'', contentHandler = None :: nat option, modified = Some 2000\<rparr>,
        \<lparr>content_id = ''b'', contentHandler = Some 1, modified = Some 900\<rparr>]) [''Course'', ''F'']
     = [Mkdir [''Course'', ''F''], ChildWrite ''b'' [''Course'', ''F'']]
   \<and> Folder_write (Folder_init (\<lambda>child cid crs. cid) (Some ''c1'')
       [\<lparr>content_id = ''a'', contentHandler = None :: nat option, modified = Some 2000\<rparr>])
       [''Course'', ''F'']
     = []"
  using Folder_write_order
    [of "Folder_init (\<lambda>child cid crs. cid) (Some ''c1'')
       [\<lparr>content_id = ''a'', contentHandler = None :: nat option, modified = Some 2000\<rparr>,
        \<lparr>content_id = ''b'', contentHandler = Some 1, modified = Some 900\<rparr>]" "[''Course'', ''F'']"]
  by (simp add: Folder_write_def Folder_init_def)

subsection \<open>C4: changing the download location with a full re-download\<close>

text \<open>
  Claim C4, as the source behaves. For a new directory different from the current
  download location, \<open>change_download_location(new_dir, redownload=True)\<close> stores the
  new location, unsets the last sync time and then raises: the setter calls
  \<open>_update_next_sync\<close>, which adds a timedelta to \<open>None\<close> and raises \<open>TypeError\<close> (or,
  for a sync interval outside the range of \<open>timedelta\<close>, raises \<open>OverflowError\<close> before
  the addition). The call never completes without error.
\<close>

theorem change_download_location_redownload_raises:
  assumes "new_dir \<noteq> download_location s"
  shows "change_download_location new_dir True s =
           (Some (if timedelta_in_range (u_sync_interval s) then TypeError else OverflowError),
            s\<lparr>u_config := \<lparr>cfg_download_location = new_dir, cfg_last_sync_time = None\<rparr>\<rparr>)"
  using assms
  by (simp add: change_download_location_def download_location_def last_sync_time_setter_def
        update_next_sync_def)

text \<open>
  Claim C4 at a concrete input: from \<open>home/bb\<close> with last sync time 1000 and the initial
  sync interval to \<open>mnt/data\<close>; the exception is \<open>TypeError\<close>.
\<close>

theorem change_download_location_redownload_raises_witness:
  "[''mnt'', ''data''] \<noteq> download_location (projr (init (example_config (Some 1000))) :: (nat, nat) BlackboardSync)
   \<and> fst (change_download_location [''mnt'', ''data''] True
        (projr (init (example_config (Some 1000))) :: (nat, nat) BlackboardSync))
      = Some TypeError
   \<and> last_sync_time (snd (change_download_location [''mnt'', ''data''] True
        (projr (init (example_config (Some 1000))) :: (nat, nat) BlackboardSync)))
      = None"
  using change_download_location_redownload_raises
    [of "[''mnt'', ''data'']" "projr (init (example_config (Some 1000))) :: (nat, nat) BlackboardSync"]
  by (simp add: eval_defs)

subsection \<open>C5: the limit on consecutive connection failures\<close>

text \<open>
  Claim C5. In an active loop whose failure count is 0, let three passes in a row each
  run a download job that raises \<open>ConnectionError\<close>. Each pass ends normally. After
  the first two the scheduler is logged in as before, with its session, and the loop is
  active; after the third it is logged out, the session is \<open>None\<close> and the loop is
  not active, so the loop ends there whatever passes would follow. No session
  invalidation is involved. A pass whose job succeeds, from any state and any failure
  count, leaves the count at 0.
\<close>

theorem three_connection_failures_log_out:
  assumes start: "u_is_active s" "failed_attempts l = 0" "sess s = Assigned se"
    and f1: "job_due (now i1) s" "download i1 = Inl ConnectionError" "tick i1 l s = (r1, l1, s1)"
    and f2: "job_due (now i2) s1" "download i2 = Inl ConnectionError" "tick i2 l1 s1 = (r2, l2, s2)"
    and f3: "job_due (now i3) s2" "download i3 = Inl ConnectionError" "tick i3 l2 s2 = (r3, l3, s3)"
    and ok: "job_due (now i4) s4" "sess s4 = Assigned se4" "download i4 = Inr t"
  shows "r1 = None \<and> r2 = None \<and> r3 = None
       \<and> u_is_logged_in s2 = u_is_logged_in s \<and> sess s2 = sess s \<and> u_is_active s2
       \<and> \<not> u_is_logged_in s3 \<and> sess s3 = Assigned None \<and> \<not> u_is_active s3
       \<and> sync_loop (i1 # i2 # i3 # rest) l s = Some (None, l3, s3)
       \<and> failed_attempts (fst (snd (tick i4 l4 s4))) = 0"
proof -
  from tick_connection_error [OF f1(1) start(3) f1(2), of l] f1(3) start(2)
  have 1: "r1 = None" "failed_attempts l1 = 1" "sess s1 = Assigned se"
    "u_is_logged_in s1 = u_is_logged_in s" "u_is_active s1"
    using start(1,3) by (auto simp add: max_retries_def)
  from tick_connection_error [OF f2(1) 1(3) f2(2), of l1] f2(3) 1(2)
  have 2: "r2 = None" "failed_attempts l2 = 2" "sess s2 = Assigned se"
    "u_is_logged_in s2 = u_is_logged_in s1" "u_is_active s2"
    using 1(3,5) by (auto simp add: max_retries_def)
  from tick_connection_error [OF f3(1) 2(3) f3(2), of l2] f3(3) 2(2)
  have 3: "r3 = None" "\<not> u_is_logged_in s3" "sess s3 = Assigned None" "\<not> u_is_active s3"
    by (auto simp add: max_retries_def)
  have loop: "sync_loop (i1 # i2 # i3 # rest) l s = Some (None, l3, s3)"
    using start(1) f1(3) f2(3) f3(3) 1(1,5) 2(1,5) 3(1,4) by (cases rest) simp_all
  have reset: "failed_attempts (fst (snd (tick i4 l4 s4))) = 0"
    using tick_success [OF ok, of l4] by simp
  show ?thesis using 1 2 3 loop reset start(3) by simp
qed

text \<open>
  Claim C5 at a concrete input: three failing passes and a fourth that would succeed,
  after logging in with no last sync time. The loop ends after the third pass with three
  jobs constructed; after the second pass the scheduler is still logged in.
\<close>

theorem three_connection_failures_log_out_witness:
  "(case sync_loop [\<lparr>now = 1000, download = Inl ConnectionError\<rparr>,
                    \<lparr>now = 1010, download = Inl ConnectionError\<rparr>,
                    \<lparr>now = 1020, download = Inl ConnectionError\<rparr>,
                    \<lparr>now = 1030, download = Inr 1030\<rparr>] loop_start (logged_in_example None) of
      Some (None, l, s) \<Rightarrow>
        failed_attempts l = 3 \<and> u_is_logged_in s = False \<and> sess s = Assigned None
        \<and> length (jobs s) = 3
    | _ \<Rightarrow> False)
   \<and> u_is_logged_in (snd (snd (tick \<lparr>now = 1010, download = Inl ConnectionError\<rparr>
        (fst (snd (tick \<lparr>now = 1000, download = Inl ConnectionError\<rparr> loop_start
           (logged_in_example None))))
        (snd (snd (tick \<lparr>now = 1000, download = Inl ConnectionError\<rparr> loop_start
           (logged_in_example None)))))))"
proof -
  let ?s = "logged_in_example None"
  let ?i1 = "\<lparr>now = 1000, download = Inl ConnectionError\<rparr>"
  let ?i2 = "\<lparr>now = 1010, download = Inl ConnectionError\<rparr>"
  let ?i3 = "\<lparr>now = 1020, download = Inl ConnectionError\<rparr>"
  let ?i4 = "\<lparr>now = 1030, download = Inr 1030\<rparr>"
  let ?t1 = "tick ?i1 loop_start ?s"
  let ?t2 = "tick ?i2 (fst (snd ?t1)) (snd (snd ?t1))"
  let ?t3 = "tick ?i3 (fst (snd ?t2)) (snd (snd ?t2))"
  have h: "u_is_active ?s" "failed_attempts loop_start = 0" "sess ?s = Assigned (Some 5)"
    "job_due (now ?i1) ?s" "download ?i1 = Inl ConnectionError"
    "?t1 = (fst ?t1, fst (snd ?t1), snd (snd ?t1))"
    "job_due (now ?i2) (snd (snd ?t1))" "download ?i2 = Inl ConnectionError"
    "?t2 = (fst ?t2, fst (snd ?t2), snd (snd ?t2))"
    "job_due (now ?i3) (snd (snd ?t2))" "download ?i3 = Inl ConnectionError"
    "?t3 = (fst ?t3, fst (snd ?t3), snd (snd ?t3))"
    "job_due (now ?i4) ?s" "download ?i4 = Inr 1030"
    by (simp_all add: eval_defs)
  from three_connection_failures_log_out
    [OF h(1-12) h(13) h(3) h(14), where rest = "[?i4]" and ?l4.0 = loop_start]
  show ?thesis by (simp add: eval_defs)
qed

subsection \<open>C6: session invalidation\<close>

text \<open>
  Claim C6. In an active loop, let a pass run a download job that raises
  \<open>ValueError\<close> (the session is no longer valid). The scheduler logs out: the session
  is \<open>None\<close>, the loop is not active and ends at its next test, with no session
  requested and no thread started so far. Then \<open>_sync_task\<close> requests exactly one
  session, with the remembered cookie jar \<open>c\<close>. If that succeeds, the scheduler is
  logged in with the new session, the loop is active and one more Sync thread has been
  started. If it raises, the scheduler stays logged out, with no session, no active loop
  and no new thread; a \<open>ValueError\<close> is caught, any other exception leaves the
  thread.
\<close>

theorem session_invalidation_reauth:
  assumes "u_is_active s" and "job_due (now inp) s" and "sess s = Assigned se"
    and "download inp = Inl ValueError" and "u_cookies s = Assigned c"
  shows "\<exists>l' s'. sync_loop (inp # rest) l s = Some (None, l', s')
           \<and> reload_session l'
           \<and> \<not> u_is_logged_in s' \<and> sess s' = Assigned None \<and> \<not> u_is_active s'
           \<and> session_requests s' = session_requests s \<and> threads s' = threads s
           \<and> (case new_session c of
                 Inr u \<Rightarrow>
                   (\<exists>s''. sync_task_from new_session (inp # rest) l s = Some (None, s'')
                      \<and> u_is_logged_in s'' \<and> sess s'' = Assigned (Some u)
                      \<and> u_is_active s'' \<and> threads s'' = threads s + 1
                      \<and> session_requests s'' = session_requests s @ [c])
               | Inl e \<Rightarrow>
                   (\<exists>s''. sync_task_from new_session (inp # rest) l s =
                            Some (if e = ValueError then None else Some e, s'')
                      \<and> \<not> u_is_logged_in s'' \<and> sess s'' = Assigned None
                      \<and> \<not> u_is_active s'' \<and> threads s'' = threads s
                      \<and> session_requests s'' = session_requests s @ [c]))"
proof -
  let ?s' = "(log_out s)\<lparr>jobs := jobs s @ [(se, download_location s, last_sync_time s)],
               u_force_sync := False, u_is_syncing := False\<rparr>"
  have t: "tick inp l s = (None, l\<lparr>reload_session := True\<rparr>, ?s')"
    using tick_session_expired [OF assms(2,3,4)] .
  have loop: "sync_loop (inp # rest) l s = Some (None, l\<lparr>reload_session := True\<rparr>, ?s')"
    using assms(1) t by (cases rest) simp_all
  have task: "sync_task_from new_session (inp # rest) l s =
                Some (reload new_session (l\<lparr>reload_session := True\<rparr>) ?s')"
    unfolding sync_task_from_def loop by simp
  have ck: "u_cookies ?s' = Assigned c" using assms(5) by simp
  show ?thesis
    unfolding task loop
    by (cases "new_session c")
       (auto simp add: reload_def ck auth_def start_sync_def Let_def)
qed

text \<open>
  Claim C6 at a concrete input: the first pass after logging in meets an invalid
  session; the cookie jar is accepted again (first part) or refused (second part).
\<close>

theorem session_invalidation_reauth_witness:
  "(case sync_task (\<lambda>c. Inr 6) [\<lparr>now = 1000, download = Inl ValueError\<rparr>]
           (logged_in_example None) of
      Some (None, s) \<Rightarrow>
        u_is_logged_in s \<and> u_is_active s \<and> sess s = Assigned (Some 6) \<and> threads s = 2
        \<and> session_requests s = [1, 1]
    | _ \<Rightarrow> False)
   \<and> (case sync_task (\<lambda>c. Inl ValueError) [\<lparr>now = 1000, download = Inl ValueError\<rparr>]
           (logged_in_example None) of
      Some (None, s) \<Rightarrow>
        u_is_logged_in s = False \<and> u_is_active s = False \<and> sess s = Assigned None
        \<and> threads s = 1 \<and> session_requests s = [1, 1]
    | _ \<Rightarrow> False)"
  using session_invalidation_reauth
    [of "logged_in_example None" "\<lparr>now = 1000, download = Inl ValueError\<rparr>" "Some 5" 1
        "[]" loop_start "\<lambda>c. Inr 6"]
  by (simp add: eval_defs)

subsection \<open>C7: exceptions raised by a download job\<close>

text \<open>
  Claim C7 fails as stated. A job that raises an exception other than \<open>ValueError\<close>
  and \<open>ConnectionError\<close> (here a \<open>KeyError\<close>) is met by no handler: the exception
  leaves the loop, nothing is written to the failure log, and the following pass, whose
  job would succeed, never runs. A job that raises \<open>ValueError\<close> is caught, but
  nothing is written to the failure log and the loop ends before the following pass.
\<close>

theorem unhandled_exception_counterexample:
  "(case sync_loop [\<lparr>now = 1000, download = Inl (OtherError ''KeyError'')\<rparr>,
                    \<lparr>now = 1010, download = Inr 1010\<rparr>] loop_start (logged_in_example None) of
      Some (Some e, l, s) \<Rightarrow>
        e = OtherError ''KeyError'' \<and> exception_logs s = [] \<and> length (jobs s) = 1
    | _ \<Rightarrow> False)
   \<and> (case sync_loop [\<lparr>now = 1000, download = Inl ValueError\<rparr>,
                      \<lparr>now = 1010, download = Inr 1010\<rparr>] loop_start (logged_in_example None) of
      Some (None, l, s) \<Rightarrow> exception_logs s = [] \<and> length (jobs s) = 1
    | _ \<Rightarrow> False)"
  by (simp add: eval_defs)

text \<open>
  Claim C7, amended. In an active loop, a \<open>ConnectionError\<close> raised by the download
  job of a pass is caught, recorded once in the failure log under
  \<open>download_location / log\<close>, and counted; while the count stays below
  \<open>max_retries\<close> the loop remains active and goes on with the next pass. A
  \<open>ValueError\<close> raised by the job is caught as well, writes nothing to the failure
  log, and ends the loop through the log-out.
\<close>

theorem handled_failures_absorbed:
  assumes "u_is_active s" and "job_due (now inp) s" and "sess s = Assigned se"
  shows "(download inp = Inl ConnectionError \<longrightarrow>
            (\<exists>l' s'. tick inp l s = (None, l', s')
               \<and> exception_logs s' =
                   exception_logs s @ [(download_location s @ [''log''], ConnectionError)]
               \<and> failed_attempts l' = failed_attempts l + 1
               \<and> (failed_attempts l + 1 < max_retries \<longrightarrow>
                    u_is_active s' \<and> sync_loop (inp # rest) l s = sync_loop rest l' s')))
       \<and> (download inp = Inl ValueError \<longrightarrow>
            (\<exists>l' s'. tick inp l s = (None, l', s')
               \<and> exception_logs s' = exception_logs s
               \<and> \<not> u_is_active s'
               \<and> sync_loop (inp # rest) l s = Some (None, l', s')))"
proof (intro conjI impI)
  assume conn: "download inp = Inl ConnectionError"
  show "\<exists>l' s'. tick inp l s = (None, l', s')
               \<and> exception_logs s' =
                   exception_logs s @ [(download_location s @ [''log''], ConnectionError)]
               \<and> failed_attempts l' = failed_attempts l + 1
               \<and> (failed_attempts l + 1 < max_retries \<longrightarrow>
                    u_is_active s' \<and> sync_loop (inp # rest) l s = sync_loop rest l' s')"
    using tick_connection_error [OF assms(2,3) conn, of l] assms(1)
    by (auto simp add: log_dir_def log_directory_def)
next
  assume expired: "download inp = Inl ValueError"
  show "\<exists>l' s'. tick inp l s = (None, l', s')
               \<and> exception_logs s' = exception_logs s
               \<and> \<not> u_is_active s'
               \<and> sync_loop (inp # rest) l s = Some (None, l', s')"
    using tick_session_expired [OF assms(2,3) expired, of l] assms(1)
    by (cases rest) simp_all
qed

text \<open>
  Claim C7 (amended) at a concrete input: the first connection failure after logging
  in is recorded under \<open>home/bb/log\<close> and the loop stays active.
\<close>

theorem handled_failures_absorbed_witness:
  "exception_logs (snd (snd (tick \<lparr>now = 1000, download = Inl ConnectionError\<rparr> loop_start
        (logged_in_example None))))
      = [([''home'', ''bb'', ''log''], ConnectionError)]
   \<and> u_is_active (snd (snd (tick \<lparr>now = 1000, download = Inl ConnectionError\<rparr> loop_start
        (logged_in_example None))))"
  using handled_failures_absorbed
    [of "logged_in_example None" "\<lparr>now = 1000, download = Inl ConnectionError\<rparr>" "Some 5"
        loop_start "[]"]
  by (simp add: eval_defs)

subsection \<open>C8: forcing a sync\<close>

text \<open>
  Claim C8 fails as stated. With last sync time 0 and next sync time 1800, the data is
  not outdated at instant 100. After \<open>force_sync()\<close> the pass constructs a job; the
  job raises an exception that no handler matches (here a \<open>KeyError\<close>), the exception
  leaves the pass before line 156, and the force flag is still set.
\<close>

theorem force_sync_unhandled_counterexample:
  "outdated 100 (logged_in_example (Some 0)) = Inr False
   \<and> fst (tick \<lparr>now = 100, download = Inl (OtherError ''KeyError'')\<rparr> loop_start
        (force_sync (logged_in_example (Some 0)))) = Some (OtherError ''KeyError'')
   \<and> jobs (snd (snd (tick \<lparr>now = 100, download = Inl (OtherError ''KeyError'')\<rparr> loop_start
        (force_sync (logged_in_example (Some 0))))))
      = [(Some 5, [''home'', ''bb''], Some 0)]
   \<and> u_force_sync (snd (snd (tick \<lparr>now = 100, download = Inl (OtherError ''KeyError'')\<rparr>
        loop_start (force_sync (logged_in_example (Some 0))))))"
  by (simp add: eval_defs)

text \<open>
  Claim C8, amended. Take a state of an active loop between two passes: no job is in
  flight and the session attribute has been assigned. Let \<open>force_sync()\<close> be called
  there and one pass follow; the loop runs that pass.

  If the last sync time is unset or a next sync time is stored, the pass constructs a
  download job, with the current session, download location and last sync time,
  whether or not the data is outdated and whatever the job then does. When the job
  succeeds, or raises \<open>ValueError\<close> or \<open>ConnectionError\<close>, the pass ends normally with
  the force flag and the syncing flag both false. When the job raises any other
  exception, the exception leaves the pass with both flags still true.

  If a last sync time is stored and no next sync time is, the pass raises \<open>TypeError\<close> in
  \<open>outdated\<close>: no job is constructed and the state stays as \<open>force_sync()\<close> left it.
\<close>

theorem force_sync_triggers_job:
  assumes "u_is_active s" and "\<not> u_is_syncing s" and "sess s = Assigned se"
  shows "sync_loop (inp # rest) l (force_sync s) =
           (case tick inp l (force_sync s) of
              (Some e, l', s') \<Rightarrow> Some (Some e, l', s')
            | (None, l', s') \<Rightarrow> sync_loop rest l' s')
       \<and> (last_sync_time s = None \<or> next_sync s \<noteq> None \<longrightarrow>
            jobs (snd (snd (tick inp l (force_sync s))))
              = jobs s @ [(se, download_location s, last_sync_time s)]
            \<and> (download inp = Inr t \<or> download inp = Inl ValueError
                \<or> download inp = Inl ConnectionError \<longrightarrow>
                  fst (tick inp l (force_sync s)) = None
                  \<and> \<not> u_force_sync (snd (snd (tick inp l (force_sync s))))
                  \<and> \<not> u_is_syncing (snd (snd (tick inp l (force_sync s)))))
            \<and> (download inp = Inl e \<and> e \<noteq> ValueError \<and> e \<noteq> ConnectionError \<longrightarrow>
                  fst (tick inp l (force_sync s)) = Some e
                  \<and> u_force_sync (snd (snd (tick inp l (force_sync s))))
                  \<and> u_is_syncing (snd (snd (tick inp l (force_sync s))))))
       \<and> (last_sync_time s \<noteq> None \<and> next_sync s = None \<longrightarrow>
            tick inp l (force_sync s) = (Some TypeError, l, force_sync s))"
proof -
  have loop: "sync_loop (inp # rest) l (force_sync s) =
           (case tick inp l (force_sync s) of
              (Some e, l', s') \<Rightarrow> Some (Some e, l', s')
            | (None, l', s') \<Rightarrow> sync_loop rest l' s')"
    using assms(1) by simp
  have se: "sess (force_sync s) = Assigned se" using assms(3) by simp
  have raise: "tick inp l (force_sync s) = (Some TypeError, l, force_sync s)"
    if "last_sync_time s \<noteq> None \<and> next_sync s = None"
    using that by (auto simp add: tick_def outdated_def force_sync_def prop_defs)
  have run: "jobs (snd (snd (tick inp l (force_sync s))))
              = jobs s @ [(se, download_location s, last_sync_time s)]
            \<and> (download inp = Inr t \<or> download inp = Inl ValueError
                \<or> download inp = Inl ConnectionError \<longrightarrow>
                  fst (tick inp l (force_sync s)) = None
                  \<and> \<not> u_force_sync (snd (snd (tick inp l (force_sync s))))
                  \<and> \<not> u_is_syncing (snd (snd (tick inp l (force_sync s)))))
            \<and> (download inp = Inl e \<and> e \<noteq> ValueError \<and> e \<noteq> ConnectionError \<longrightarrow>
                  fst (tick inp l (force_sync s)) = Some e
                  \<and> u_force_sync (snd (snd (tick inp l (force_sync s))))
                  \<and> u_is_syncing (snd (snd (tick inp l (force_sync s)))))"
    if inv: "last_sync_time s = None \<or> next_sync s \<noteq> None"
  proof -
    have due: "job_due (now inp) (force_sync s)"
      using inv by (rule job_due_force_sync)
    show ?thesis
    proof (cases "download inp")
      case (Inr t')
      show ?thesis using tick_success [OF due se Inr, of l] Inr by simp
    next
      case (Inl e')
      consider (expired) "e' = ValueError" | (conn) "e' = ConnectionError"
        | (other) "e' \<noteq> ValueError" "e' \<noteq> ConnectionError" by blast
      then show ?thesis
      proof cases
        case expired
        show ?thesis
          using tick_session_expired [OF due se, of l] Inl expired by simp
      next
        case conn
        show ?thesis
          using tick_connection_error [OF due se, of l] Inl conn by simp
      next
        case other
        show ?thesis
          using tick_unhandled [OF due se Inl other, of l] Inl other
          by (simp add: force_sync_def prop_defs)
      qed
    qed
  qed
  from loop raise run show ?thesis by blast
qed

text \<open>
  Claim C8 (amended) at concrete inputs: not outdated at instant 100, a forced pass
  whose job raises \<open>ConnectionError\<close>; and a forced pass in a state that stores a last
  sync time and no next sync time.
\<close>

theorem force_sync_triggers_job_witness:
  "outdated 100 (logged_in_example (Some 0)) = Inr False
   \<and> jobs (snd (snd (tick \<lparr>now = 100, download = Inl ConnectionError\<rparr> loop_start
        (force_sync (logged_in_example (Some 0))))))
      = [(Some 5, [''home'', ''bb''], Some 0)]
   \<and> u_force_sync (snd (snd (tick \<lparr>now = 100, download = Inl ConnectionError\<rparr> loop_start
        (force_sync (logged_in_example (Some 0)))))) = False
   \<and> fst (tick \<lparr>now = 100, download = Inr 100\<rparr> loop_start
        (force_sync ((logged_in_example (Some 0))\<lparr>u_next_sync := None\<rparr>))) = Some TypeError
   \<and> jobs (snd (snd (tick \<lparr>now = 100, download = Inr 100\<rparr> loop_start
        (force_sync ((logged_in_example (Some 0))\<lparr>u_next_sync := None\<rparr>))))) = []"
  using force_sync_triggers_job
      [where s = "logged_in_example (Some 0)" and se = "Some 5"
         and inp = "\<lparr>now = 100, download = Inl ConnectionError\<rparr>" and l = loop_start
         and rest = "[]" and t = 0 and e = ConnectionError]
    force_sync_triggers_job
      [where s = "(logged_in_example (Some 0))\<lparr>u_next_sync := None\<rparr>" and se = "Some 5"
         and inp = "\<lparr>now = 100, download = Inr 100\<rparr>" and l = loop_start
         and rest = "[]" and t = 100 and e = ConnectionError]
  by (simp add: eval_defs)

subsection \<open>C9: changing the download location to the current one\<close>

text \<open>
  Claim C9. \<open>change_download_location\<close> with the current download location returns
  normally and leaves the whole state as it was, whatever \<open>redownload\<close> is: the
  location, the last sync time and the next sync time are untouched.
\<close>

theorem change_download_location_same:
  "change_download_location (download_location s) redownload s = (None, s)"
  by (simp add: change_download_location_def download_location_def)

text \<open>
  Claim C9 at a concrete input: the location \<open>home/bb\<close> again, with
  \<open>redownload=True\<close>; the last sync time stays 1000 and the next sync time 2800.
\<close>

theorem change_download_location_same_witness:
  "fst (change_download_location [''home'', ''bb''] True (logged_in_example (Some 1000))) = None
   \<and> last_sync_time (snd (change_download_location [''home'', ''bb''] True
         (logged_in_example (Some 1000)))) = Some 1000
   \<and> next_sync (snd (change_download_location [''home'', ''bb''] True
         (logged_in_example (Some 1000)))) = Some 2800"
  using change_download_location_same [of "logged_in_example (Some 1000)" True]
  by (simp add: eval_defs)

subsection \<open>C10: the remembered cookie jar\<close>

text \<open>
  Claim C10. \<open>auth(cookie_jar)\<close> leaves \<open>cookie_jar\<close> as the remembered cookie jar
  whatever the session constructor does, and a value it returns is \<open>is_logged_in\<close> as
  it stands at the end of the call. When the constructor raises \<open>ValueError\<close>, the
  call returns the value \<open>is_logged_in\<close> had before it (true if already logged in),
  the session, the activity of the loop and the threads are as before, and a later
  reload after session invalidation requests its session with \<open>cookie_jar\<close>.
\<close>

theorem auth_remembers_cookie_jar:
  "u_cookies (snd (auth new_session cookie_jar s)) = Assigned cookie_jar
   \<and> (\<forall>b. fst (auth new_session cookie_jar s) = Inr b \<longrightarrow>
          b = u_is_logged_in (snd (auth new_session cookie_jar s)))
   \<and> (new_session cookie_jar = Inl ValueError \<longrightarrow>
          fst (auth new_session cookie_jar s) = Inr (u_is_logged_in s)
          \<and> sess (snd (auth new_session cookie_jar s)) = sess s
          \<and> u_is_logged_in (snd (auth new_session cookie_jar s)) = u_is_logged_in s
          \<and> u_is_active (snd (auth new_session cookie_jar s)) = u_is_active s
          \<and> threads (snd (auth new_session cookie_jar s)) = threads s
          \<and> session_requests
                (snd (reload later_session \<lparr>reload_session = True, failed_attempts = k\<rparr>
                   (snd (auth new_session cookie_jar s))))
              = session_requests s @ [cookie_jar, cookie_jar])"
  by (auto simp add: auth_def reload_def start_sync_def Let_def split: sum.splits)

text \<open>
  Claim C10 at a concrete input: logged in with cookie jar 1, then \<open>auth\<close> with the
  invalid cookie jar 2. The call returns true, the session is still 5, and cookie jar 2
  is remembered.
\<close>

theorem auth_remembers_cookie_jar_witness:
  "fst (auth (\<lambda>c. if c = 1 then Inr 5 else Inl ValueError) 2 (logged_in_example None)) = Inr True
   \<and> sess (snd (auth (\<lambda>c. if c = 1 then Inr 5 else Inl ValueError) 2 (logged_in_example None)))
       = Assigned (Some 5)
   \<and> u_cookies (snd (auth (\<lambda>c. if c = 1 then Inr 5 else Inl ValueError) 2 (logged_in_example None)))
       = Assigned 2"
  using auth_remembers_cookie_jar
    [of "\<lambda>c. if c = 1 then Inr 5 else Inl ValueError" 2 "logged_in_example None"]
  by (simp add: eval_defs)

end
